theory Spec2Isabelle
  imports Complex_Main
begin

section \<open>Strings and the URL encodings of the runtime\<close>

text \<open>
  A JavaScript string is modelled by the bytes of its UTF-8 encoding: \<open>string\<close> is
  \<open>char list\<close> and a \<open>char\<close> is one byte. Both encoders below work on UTF-8 bytes, as
  the runtime's do; a lone surrogate, which has no UTF-8 encoding, is not a value of
  this type.
\<close>

definition startsWith :: "string \<Rightarrow> string \<Rightarrow> bool" where
  "startsWith s p = (take (length p) s = p)"

definition hexDigit :: "nat \<Rightarrow> char" where
  "hexDigit n = ''0123456789ABCDEF'' ! (n mod 16)"

definition percentByte :: "char \<Rightarrow> string" where
  "percentByte c = [CHR ''%'', hexDigit (of_char c div 16), hexDigit (of_char c mod 16)]"

definition alphanumeric :: string where
  "alphanumeric = ''ABCDEFGHIJKLMNOPQRSTUVWXYZabcdefghijklmnopqrstuvwxyz0123456789''"

text \<open>
  \<open>encodeURIComponent\<close>: every byte is escaped as \<open>%XX\<close> except the letters, the
  digits and \<open>- _ . ! ~ * ' ( )\<close>.
\<close>

definition uriUnreserved :: string where
  "uriUnreserved = alphanumeric @ [CHR ''-'', CHR ''_'', CHR ''.'', CHR ''!'', CHR ''~'',
     CHR ''*'', CHR 0x27, CHR ''('', CHR '')'']"

definition encodeURIComponent :: "string \<Rightarrow> string" where
  "encodeURIComponent s =
     concat (map (\<lambda>c. if c \<in> set uriUnreserved then [c] else percentByte c) s)"

text \<open>
  \<open>URLSearchParams.prototype.toString\<close>, the application/x-www-form-urlencoded
  serialiser: in names and values the letters, the digits and \<open>* - . _\<close> stay, a
  space becomes \<open>+\<close>, every other byte is escaped; a pair is \<open>name=value\<close> and the
  pairs are joined by \<open>&\<close>.
\<close>

definition formSafe :: string where
  "formSafe = alphanumeric @ [CHR ''*'', CHR ''-'', CHR ''.'', CHR ''_'']"

definition formEncode :: "string \<Rightarrow> string" where
  "formEncode s =
     concat (map (\<lambda>c. if c \<in> set formSafe then [c]
                       else if c = CHR '' '' then ''+'' else percentByte c) s)"

fun join :: "string \<Rightarrow> string list \<Rightarrow> string" where
  "join sep [] = []"
| "join sep [x] = x"
| "join sep (x # y # ys) = x @ sep @ join sep (y # ys)"

type_synonym params = "(string \<times> string) list"

definition URLSearchParams_toString :: "params \<Rightarrow> string" where
  "URLSearchParams_toString ps =
     join ''&'' (map (\<lambda>(k, v). formEncode k @ ''='' @ formEncode v) ps)"

text \<open>\<open>String.prototype.split\<close> with a one-character separator.\<close>

fun split :: "char \<Rightarrow> string \<Rightarrow> string list" where
  "split sep [] = [[]]"
| "split sep (c # cs) =
     (if c = sep then [] # split sep cs
      else (case split sep cs of [] \<Rightarrow> [[c]] | seg # segs \<Rightarrow> (c # seg) # segs))"

section \<open>Building the target URL (callGraphAPI, lines 42--90)\<close>

text \<open>
  A query-parameter object is the list of its entries in \<open>Object.entries\<close> order, with
  string values. \<open>queryParams.$filter\<close> reads the entry of that key, and
  \<open>delete queryParams.$filter\<close> removes it from the object itself: the object the
  caller passed is changed, so the builder returns the object as it leaves it.
\<close>

definition deleteKey :: "string \<Rightarrow> params \<Rightarrow> params" where
  "deleteKey k ps = filter (\<lambda>(k', v). k' \<noteq> k) ps"

definition buildQueryString :: "params \<Rightarrow> string \<times> params" where
  "buildQueryString queryParams =
     (if length queryParams > 0 then
        (let filter = map_of queryParams ''$filter'';
             hasFilter = (case filter of None \<Rightarrow> False | Some f \<Rightarrow> f \<noteq> []);
             queryParams' = (if hasFilter then deleteKey ''$filter'' queryParams
                             else queryParams);
             queryString = URLSearchParams_toString queryParams';
             queryString' =
               (if hasFilter then
                  (if queryString \<noteq> []
                   then queryString @ ''&$filter='' @ encodeURIComponent (the filter)
                   else ''$filter='' @ encodeURIComponent (the filter))
                else queryString);
             queryString'' = (if queryString' \<noteq> [] then ''?'' @ queryString'
                              else queryString')
         in (queryString'', queryParams'))
      else ([], queryParams))"

definition isFullUrl :: "string \<Rightarrow> bool" where
  "isFullUrl path = (startsWith path ''http://'' \<or> startsWith path ''https://'')"

definition encodePath :: "string \<Rightarrow> string" where
  "encodePath path = join ''/'' (map encodeURIComponent (split CHR ''/'' path))"

definition buildFinalUrl :: "string \<Rightarrow> string \<Rightarrow> params \<Rightarrow> string \<times> params" where
  "buildFinalUrl endpoint path queryParams =
     (if isFullUrl path then (path, queryParams)
      else (let (queryString, queryParams') = buildQueryString queryParams
            in (endpoint @ encodePath path @ queryString, queryParams')))"

section \<open>Values, errors and the world outside\<close>

datatype json =
    JNull
  | JBool bool
  | JNumber rat
  | JString string
  | JArray "json list"
  | JObject "(string \<times> json) list"

text \<open>JavaScript truthiness of a value that came out of \<open>JSON.parse\<close>.\<close>

fun truthy :: "json \<Rightarrow> bool" where
  "truthy JNull = False"
| "truthy (JBool b) = b"
| "truthy (JNumber r) = (r \<noteq> 0)"
| "truthy (JString s) = (s \<noteq> [])"
| "truthy (JArray xs) = True"
| "truthy (JObject kvs) = True"

text \<open>
  An \<open>Error\<close> object: its message and the two properties the gateway sets on the
  errors it makes (\<open>err.statusCode\<close>, \<open>err.body\<close>).
\<close>

record js_error =
  message :: string
  statusCode :: "nat option"
  body :: "string option"

definition newError :: "string \<Rightarrow> js_error" where
  "newError msg = \<lparr>message = msg, statusCode = None, body = None\<rparr>"

text \<open>
  What one call of \<open>https.request\<close> leads to: the call itself raises, the request
  emits \<open>error\<close>, or the response ends with a status code and the chunks received,
  concatenated.
\<close>

datatype http_outcome =
    RequestThrows js_error
  | NetworkError string
  | Response nat string

text \<open>
  What \<open>tokenStorage.getValidAccessToken()\<close> settles to: a value (\<open>None\<close> for
  \<open>null\<close> or \<open>undefined\<close>) or a rejection.
\<close>

datatype token_result =
    Resolves "string option"
  | Rejects js_error

record request =
  url :: string
  httpMethod :: string
  authorization :: string
  payload :: "string option"

text \<open>
  The parts the gateway uses and this repository's files do not define: the
  configuration (\<open>config\<close>), the mock module, the runtime's JSON functions, the
  remote API and the token storage. The remote API and the token storage are
  oracles: the answer to the \<open>i\<close>-th call of \<open>https.request\<close> and the result of
  the \<open>i\<close>-th call of \<open>getValidAccessToken\<close>, counted from 0. Every request is
  taken to end (with \<open>end\<close> or \<open>error\<close>) and every call of the token storage to
  settle. Log output is left out.
\<close>

record env =
  USE_TEST_MODE :: bool
  GRAPH_API_ENDPOINT :: string
  simulateGraphAPIResponse :: "string \<Rightarrow> json \<Rightarrow> json option \<Rightarrow> params \<Rightarrow> js_error + json"
  JSON_parse :: "string \<Rightarrow> string + json"
  JSON_stringify :: "json \<Rightarrow> js_error + string"
  network :: "nat \<Rightarrow> http_outcome"
  getValidAccessToken :: "nat \<Rightarrow> token_result"

text \<open>
  The effects: the calls of \<open>https.request\<close> made so far, oldest first, the
  number of calls of \<open>getValidAccessToken\<close>, and the number of \<open>TokenStorage\<close>
  objects constructed inside functions (the gateway's own one is made once, when the
  module is loaded).
\<close>

record world =
  requests :: "request list"
  tokenCalls :: nat
  storagesCreated :: nat

definition callGetValidAccessToken :: "env \<Rightarrow> world \<Rightarrow> token_result \<times> world" where
  "callGetValidAccessToken env w =
     (getValidAccessToken env (tokenCalls w), w\<lparr>tokenCalls := Suc (tokenCalls w)\<rparr>)"

section \<open>callGraphAPI\<close>

definition testMode :: "env \<Rightarrow> string \<Rightarrow> bool" where
  "testMode env accessToken =
     (USE_TEST_MODE env \<and> startsWith accessToken ''test_access_token_'')"

definition dataTruthy :: "json option \<Rightarrow> bool" where
  "dataTruthy data = (case data of None \<Rightarrow> False | Some d \<Rightarrow> truthy d)"

text \<open>
  Lines 37--90, the part of the \<open>try\<close> block that runs before the promise is made:
  the payload is serialised for the log (which raises when \<open>JSON.stringify\<close>
  does) and the URL is built.
\<close>

definition prepare :: "env \<Rightarrow> string \<Rightarrow> json option \<Rightarrow> params \<Rightarrow> js_error + string \<times> params" where
  "prepare env path data queryParams =
     (case (if dataTruthy data then JSON_stringify env (the data) else Inr [])
      of Inl error \<Rightarrow> Inl error
       | Inr logged \<Rightarrow> Inr (buildFinalUrl (GRAPH_API_ENDPOINT env) path queryParams))"

text \<open>
  Lines 92--106 and 156--165: the promise's executor. An exception of
  \<open>https.request\<close> or of \<open>JSON.stringify\<close> rejects the promise with that error;
  the body is written only for POST, PATCH and PUT.
\<close>

definition writesBody :: "string \<Rightarrow> json option \<Rightarrow> bool" where
  "writesBody method data =
     (dataTruthy data \<and> (method = ''POST'' \<or> method = ''PATCH'' \<or> method = ''PUT''))"

definition theRequest :: "env \<Rightarrow> string \<Rightarrow> string \<Rightarrow> string \<Rightarrow> json option \<Rightarrow> request" where
  "theRequest env finalUrl method accessToken data =
     \<lparr>url = finalUrl, httpMethod = method, authorization = ''Bearer '' @ accessToken,
      payload = (if writesBody method data
                 then (case JSON_stringify env (the data) of Inl e \<Rightarrow> None | Inr s \<Rightarrow> Some s)
                 else None)\<rparr>"

definition httpsRequest ::
  "env \<Rightarrow> world \<Rightarrow> string \<Rightarrow> string \<Rightarrow> string \<Rightarrow> json option \<Rightarrow> (js_error + nat \<times> string) \<times> world" where
  "httpsRequest env w finalUrl method accessToken data =
     (let written = (if writesBody method data then JSON_stringify env (the data)
                     else Inr []);
          w' = w\<lparr>requests := requests w @ [theRequest env finalUrl method accessToken data]\<rparr>
      in (case network env (length (requests w)) of
            RequestThrows e \<Rightarrow> (Inl e, w')
          | NetworkError m \<Rightarrow>
              (case written of
                 Inl e \<Rightarrow> (Inl e, w')
               | Inr s \<Rightarrow> (Inl (newError (''Network error during API call: '' @ m)), w'))
          | Response st responseData \<Rightarrow>
              (case written of
                 Inl e \<Rightarrow> (Inl e, w')
               | Inr s \<Rightarrow> (Inr (st, responseData), w'))))"

fun showNat :: "nat \<Rightarrow> string" where
  "showNat n =
     (if n < 10 then [''0123456789'' ! n]
      else showNat (n div 10) @ [''0123456789'' ! (n mod 10)])"

declare showNat.simps [simp del]

definition unauthorized :: "string \<Rightarrow> string \<Rightarrow> js_error" where
  "unauthorized msg responseData =
     \<lparr>message = ''UNAUTHORIZED: '' @ msg, statusCode = Some 401, body = Some responseData\<rparr>"

function callGraphAPI ::
  "env \<Rightarrow> world \<Rightarrow> string \<Rightarrow> string \<Rightarrow> string \<Rightarrow> json option \<Rightarrow> params \<Rightarrow> bool
     \<Rightarrow> (js_error + json) \<times> world \<times> params" where
  "callGraphAPI env w accessToken method path data queryParams isRetry =
     (if testMode env accessToken
      then (simulateGraphAPIResponse env method (JString path) data queryParams, w, queryParams)
      else
        (case prepare env path data queryParams of
           Inl error \<Rightarrow>
             (if statusCode error = Some 401 \<and> \<not> isRetry then
                (case callGetValidAccessToken env w of
                   (Rejects refreshError, w1) \<Rightarrow> (Inl (newError ''UNAUTHORIZED''), w1, queryParams)
                 | (Resolves fresh, w1) \<Rightarrow>
                     (if fresh = None \<or> fresh = Some [] then
                        (Inl (newError ''UNAUTHORIZED''), w1, queryParams)
                      else
                        (case callGraphAPI env w1 (the fresh) method path data queryParams True of
                           (Inl refreshError, w2, qp2) \<Rightarrow> (Inl (newError ''UNAUTHORIZED''), w2, qp2)
                         | (Inr result, w2, qp2) \<Rightarrow> (Inr result, w2, qp2))))
              else (Inl error, w, queryParams))
         | Inr (finalUrl, qp) \<Rightarrow>
             (case httpsRequest env w finalUrl method accessToken data of
                (Inl error, w1) \<Rightarrow> (Inl error, w1, qp)
              | (Inr (st, responseData), w1) \<Rightarrow>
                  (if 200 \<le> st \<and> st < 300 then
                     (case JSON_parse env (if responseData \<noteq> [] then responseData else ''{}'') of
                        Inl msg \<Rightarrow>
                          (Inl (newError (''Error parsing API response: '' @ msg)), w1, qp)
                      | Inr jsonResponse \<Rightarrow> (Inr jsonResponse, w1, qp))
                   else if st = 401 \<and> \<not> isRetry then
                     (case callGetValidAccessToken env w1 of
                        (Rejects refreshError, w2) \<Rightarrow>
                          (Inl (unauthorized (message refreshError) responseData), w2, qp)
                      | (Resolves fresh, w2) \<Rightarrow>
                          (if fresh = None \<or> fresh = Some [] then
                             (Inl (newError ''UNAUTHORIZED: refresh failed or no refresh_token''),
                              w2, qp)
                           else
                             (case callGraphAPI env w2 (the fresh) method path data qp True of
                                (Inl refreshError, w3, qp3) \<Rightarrow>
                                  (Inl (unauthorized (message refreshError) responseData), w3, qp3)
                              | (Inr retryResult, w3, qp3) \<Rightarrow> (Inr retryResult, w3, qp3))))
                   else
                     (Inl (newError (''API call failed with status '' @ showNat st @ '': ''
                                      @ responseData)), w1, qp)))))"
  by pat_completeness auto
termination
  by (relation "measure (\<lambda>(env, w, accessToken, method, path, data, queryParams, isRetry).
                  if isRetry then 0 else 1)") auto

declare callGraphAPI.simps [simp del]

section \<open>ensureAuthenticated\<close>

definition ensureAuthenticated :: "env \<Rightarrow> world \<Rightarrow> bool \<Rightarrow> (js_error + string) \<times> world" where
  "ensureAuthenticated env w forceNew =
     (if forceNew then (Inl (newError ''Authentication required''), w)
      else
        (case callGetValidAccessToken env (w\<lparr>storagesCreated := Suc (storagesCreated w)\<rparr>) of
           (Rejects error, w1) \<Rightarrow> (Inl error, w1)
         | (Resolves accessToken, w1) \<Rightarrow>
             (if accessToken = None \<or> accessToken = Some [] then
                (Inl (newError ''Authentication required''), w1)
              else (Inr (the accessToken), w1))))"

section \<open>callGraphAPIPaginated\<close>

text \<open>
  \<open>response.value\<close> and \<open>response['@odata.nextLink']\<close>: reading one of these two
  properties of a parsed response. \<open>null\<close> has no properties and the read raises a
  TypeError; an object gives its entry, or \<open>undefined\<close> (\<open>None\<close>); an array, a
  string, a number and a boolean have neither property.
\<close>

definition getProperty :: "json \<Rightarrow> string \<Rightarrow> js_error + json option" where
  "getProperty j k =
     (case j of
        JNull \<Rightarrow> Inl (newError (''Cannot read properties of null (reading '' @ [CHR 0x27] @ k
                                  @ [CHR 0x27] @ '')''))
      | JObject kvs \<Rightarrow> Inr (map_of kvs k)
      | _ \<Rightarrow> Inr None)"

definition truthyOpt :: "json option \<Rightarrow> bool" where
  "truthyOpt v = (case v of None \<Rightarrow> False | Some j \<Rightarrow> truthy j)"

text \<open>
  The loop passes \<open>currentUrl\<close> to \<open>callGraphAPI\<close>; after the first page it is
  whatever truthy value the response carried as \<open>@odata.nextLink\<close>. A value that
  is not a string has no \<open>startsWith\<close>: outside test mode line 44 raises a
  TypeError, which the \<open>catch\<close> block rethrows (it has no \<open>statusCode\<close>).
\<close>

definition callGraphAPI_url ::
  "env \<Rightarrow> world \<Rightarrow> string \<Rightarrow> string \<Rightarrow> json \<Rightarrow> params \<Rightarrow> (js_error + json) \<times> world \<times> params" where
  "callGraphAPI_url env w accessToken method currentUrl currentParams =
     (case currentUrl of
        JString path \<Rightarrow> callGraphAPI env w accessToken method path None currentParams False
      | _ \<Rightarrow>
          (if testMode env accessToken
           then (simulateGraphAPIResponse env method currentUrl None currentParams, w,
                 currentParams)
           else (Inl (newError ''path.startsWith is not a function''), w, currentParams)))"

definition finalResult :: "int \<Rightarrow> json list \<Rightarrow> json" where
  "finalResult maxCount allItems =
     (let finalItems = (if maxCount > 0 then take (nat maxCount) allItems else allItems)
      in JObject [(''value'', JArray finalItems),
                  (''@odata.count'', JNumber (of_nat (length finalItems)))])"

text \<open>
  The \<open>do ... while (nextLink)\<close> loop, lines 206--231, with what follows it. It need
  not end (a server can chain cursors for ever): \<open>None\<close> is the run that never
  returns.
\<close>

partial_function (option) paginationLoop ::
  "env \<Rightarrow> string \<Rightarrow> string \<Rightarrow> int \<Rightarrow> world \<Rightarrow> json \<Rightarrow> params \<Rightarrow> json list
     \<Rightarrow> ((js_error + json) \<times> world) option" where
  "paginationLoop env accessToken method maxCount w currentUrl currentParams allItems =
     (case callGraphAPI_url env w accessToken method currentUrl currentParams of
        (Inl error, w1, qp) \<Rightarrow> Some (Inl error, w1)
      | (Inr response, w1, qp) \<Rightarrow>
          (case getProperty response ''value'' of
             Inl error \<Rightarrow> Some (Inl error, w1)
           | Inr v \<Rightarrow>
               (let allItems' = (case v of Some (JArray items) \<Rightarrow> allItems @ items
                                 | _ \<Rightarrow> allItems)
                in if maxCount > 0 \<and> int (length allItems') \<ge> maxCount
                   then Some (Inr (finalResult maxCount allItems'), w1)
                   else
                     (case getProperty response ''@odata.nextLink'' of
                        Inl error \<Rightarrow> Some (Inl error, w1)
                      | Inr nextLink \<Rightarrow>
                          (if truthyOpt nextLink
                           then paginationLoop env accessToken method maxCount w1
                                  (the nextLink) [] allItems'
                           else Some (Inr (finalResult maxCount allItems'), w1))))))"

definition callGraphAPIPaginated ::
  "env \<Rightarrow> world \<Rightarrow> string \<Rightarrow> string \<Rightarrow> string \<Rightarrow> params \<Rightarrow> int
     \<Rightarrow> ((js_error + json) \<times> world) option" where
  "callGraphAPIPaginated env w accessToken method path queryParams maxCount =
     (if method \<noteq> ''GET''
      then Some (Inl (newError ''Pagination only supports GET requests''), w)
      else paginationLoop env accessToken method maxCount w (JString path) queryParams [])"

section \<open>Notions used in the statements\<close>

text \<open>
  \<open>stringifies\<close>: \<open>JSON.stringify\<close> does not raise on the payload, so the \<open>try\<close>
  block reaches the request. \<open>firstRequest\<close>: the request a call issues first, for
  its arguments.
\<close>

definition stringifies :: "env \<Rightarrow> json option \<Rightarrow> bool" where
  "stringifies env data = (dataTruthy data \<longrightarrow> \<not> isl (JSON_stringify env (the data)))"

definition firstRequest :: "env \<Rightarrow> string \<Rightarrow> string \<Rightarrow> string \<Rightarrow> json option \<Rightarrow> params \<Rightarrow> request" where
  "firstRequest env accessToken method path data queryParams =
     theRequest env (fst (buildFinalUrl (GRAPH_API_ENDPOINT env) path queryParams)) method
       accessToken data"

text \<open>
  The query string as the specification words it: the parameters other than
  \<open>$filter\<close> form-encoded, the value of \<open>$filter\<close> percent-encoded as a whole and
  appended as the last component, the pieces joined by \<open>?\<close> and \<open>&\<close>.
\<close>

definition specQueryString :: "params \<Rightarrow> string" where
  "specQueryString queryParams =
     (let general = filter (\<lambda>(k, v). k \<noteq> ''$filter'') queryParams
      in case map_of queryParams ''$filter'' of
           None \<Rightarrow> (if general = [] then [] else ''?'' @ URLSearchParams_toString general)
         | Some f \<Rightarrow>
             (if general = [] then ''?$filter='' @ encodeURIComponent f
              else ''?'' @ URLSearchParams_toString general @ ''&$filter=''
                     @ encodeURIComponent f))"

text \<open>
  Pages. A page is its items and its continuation cursor, if it has one; an answer
  serves a page when it is a 2xx response whose body parses to an object with the
  items under \<open>value\<close> and the cursor under \<open>@odata.nextLink\<close>. \<open>servesPages env i\<close>:
  the answers to the requests number \<open>i\<close>, \<open>i + 1\<close>, ... serve the pages in order.
  \<open>chained\<close>: there is a page, and every page but the last carries a cursor.
  \<open>pageRequests\<close>: the first request, then one request per cursor of the pages
  before the last, to that cursor, with no query parameters.
\<close>

type_synonym page = "json list \<times> string option"

definition hasCursor :: "page \<Rightarrow> bool" where
  "hasCursor pg = (case snd pg of Some c \<Rightarrow> c \<noteq> [] | None \<Rightarrow> False)"

definition isPage :: "env \<Rightarrow> http_outcome \<Rightarrow> page \<Rightarrow> bool" where
  "isPage env answer pg =
     (case answer of
        Response st b \<Rightarrow>
          200 \<le> st \<and> st < 300 \<and> b \<noteq> [] \<and>
          (case JSON_parse env b of
             Inr (JObject props) \<Rightarrow>
               map_of props ''value'' = Some (JArray (fst pg))
               \<and> map_of props ''@odata.nextLink'' = map_option JString (snd pg)
           | _ \<Rightarrow> False)
      | _ \<Rightarrow> False)"

fun servesPages :: "env \<Rightarrow> nat \<Rightarrow> page list \<Rightarrow> bool" where
  "servesPages env i [] = True"
| "servesPages env i (pg # pgs) = (isPage env (network env i) pg \<and> servesPages env (Suc i) pgs)"

fun chained :: "page list \<Rightarrow> bool" where
  "chained [] = False"
| "chained [pg] = True"
| "chained (pg # pgs) = (hasCursor pg \<and> chained pgs)"

definition allItemsOf :: "page list \<Rightarrow> json list" where
  "allItemsOf pages = concat (map fst pages)"

definition pageRequests :: "env \<Rightarrow> string \<Rightarrow> string \<Rightarrow> string \<Rightarrow> params \<Rightarrow> page list \<Rightarrow> request list" where
  "pageRequests env accessToken method path queryParams pages =
     firstRequest env accessToken method path None queryParams
     # map (\<lambda>pg. firstRequest env accessToken method (the (snd pg)) None []) (butlast pages)"

section \<open>A sample environment\<close>

text \<open>
  A stand-in for the outside, to run the functions on concrete inputs: a runtime
  whose \<open>JSON.parse\<close> knows the listed texts only, a remote API that gives the listed
  answers in order, and a token storage that gives the listed results in order.
\<close>

definition parseTable :: "(string \<times> json) list \<Rightarrow> string \<Rightarrow> string + json" where
  "parseTable table s =
     (case map_of table s of Some j \<Rightarrow> Inr j | None \<Rightarrow> Inl ''Unexpected token'')"

definition sampleEnv :: "(string \<times> json) list \<Rightarrow> http_outcome list \<Rightarrow> token_result list \<Rightarrow> env" where
  "sampleEnv table answers tokens =
     \<lparr>USE_TEST_MODE = False,
      GRAPH_API_ENDPOINT = ''https://graph.microsoft.com/v1.0/'',
      simulateGraphAPIResponse = (\<lambda>method path data queryParams. Inr JNull),
      JSON_parse = parseTable table,
      JSON_stringify = (\<lambda>j. Inr ''{}''),
      network = (\<lambda>i. if i < length answers then answers ! i else NetworkError ''ECONNRESET''),
      getValidAccessToken = (\<lambda>i. if i < length tokens then tokens ! i else Resolves None)\<rparr>"

definition world0 :: world where
  "world0 = \<lparr>requests = [], tokenCalls = 0, storagesCreated = 0\<rparr>"

text \<open>Three pages of two, two and one items, and an API that serves them.\<close>

definition threePages :: "page list" where
  "threePages =
     [([JString ''a'', JString ''b''], Some ''https://graph.microsoft.com/v1.0/me/messages?$skip=2''),
      ([JString ''c'', JString ''d''], Some ''https://graph.microsoft.com/v1.0/me/messages?$skip=4''),
      ([JString ''e''], None)]"

definition pageObject :: "page \<Rightarrow> json" where
  "pageObject pg =
     JObject ((''value'', JArray (fst pg))
              # (case snd pg of None \<Rightarrow> [] | Some c \<Rightarrow> [(''@odata.nextLink'', JString c)]))"

definition threePagesEnv :: env where
  "threePagesEnv =
     sampleEnv [(''page 1'', pageObject (threePages ! 0)), (''page 2'', pageObject (threePages ! 1)),
                (''page 3'', pageObject (threePages ! 2))]
       [Response 200 ''page 1'', Response 200 ''page 2'', Response 200 ''page 3''] []"

text \<open>
  Two more APIs: one that serves the first and the last of the three pages, and
  one whose first page carries a cursor with an upper-case scheme.
\<close>

definition twoPagesEnv :: env where
  "twoPagesEnv =
     sampleEnv [(''page 1'', pageObject (threePages ! 0)), (''page 3'', pageObject (threePages ! 2))]
       [Response 200 ''page 1'', Response 200 ''page 3''] []"

definition upperCaseEnv :: env where
  "upperCaseEnv =
     sampleEnv
       [(''page 1'', JObject [(''value'', JArray [JString ''a'']),
                             (''@odata.nextLink'',
                              JString ''HTTPS://graph.microsoft.com/v1.0/me/messages?$skip=1'')]),
        (''page 2'', JObject [(''value'', JArray [JString ''b''])])]
       [Response 200 ''page 1'', Response 200 ''page 2''] []"

section \<open>Unfolding callGraphAPI\<close>

lemma prepare_ok:
  "stringifies env data \<Longrightarrow>
   prepare env path data qp = Inr (buildFinalUrl (GRAPH_API_ENDPOINT env) path qp)"
  by (auto simp: prepare_def stringifies_def split: sum.splits)

lemma httpsRequest_response:
  "stringifies env data \<Longrightarrow> network env (length (requests w)) = Response st b \<Longrightarrow>
   httpsRequest env w u m t data =
     (Inr (st, b), w\<lparr>requests := requests w @ [theRequest env u m t data]\<rparr>)"
  by (auto simp: httpsRequest_def stringifies_def writesBody_def Let_def split: sum.splits)

text \<open>A call with the flag set does not call itself.\<close>

lemma callGraphAPI_retry:
  "callGraphAPI env w t m p d q True =
     (if testMode env t then (simulateGraphAPIResponse env m (JString p) d q, w, q)
      else (case prepare env p d q of
              Inl error \<Rightarrow> (Inl error, w, q)
            | Inr (finalUrl, qp) \<Rightarrow>
                (case httpsRequest env w finalUrl m t d of
                   (Inl error, w1) \<Rightarrow> (Inl error, w1, qp)
                 | (Inr (st, responseData), w1) \<Rightarrow>
                     (if 200 \<le> st \<and> st < 300 then
                        (case JSON_parse env (if responseData \<noteq> [] then responseData else ''{}'') of
                           Inl msg \<Rightarrow>
                             (Inl (newError (''Error parsing API response: '' @ msg)), w1, qp)
                         | Inr jsonResponse \<Rightarrow> (Inr jsonResponse, w1, qp))
                      else (Inl (newError (''API call failed with status '' @ showNat st @ '': ''
                                      @ responseData)), w1, qp)))))"
  by (subst callGraphAPI.simps) (auto split: sum.splits prod.splits)

lemma httpsRequest_effect:
  "httpsRequest env w u m t d = (x, w1) \<Longrightarrow>
   requests w1 = requests w @ [theRequest env u m t d] \<and> tokenCalls w1 = tokenCalls w
   \<and> storagesCreated w1 = storagesCreated w"
  by (auto simp: httpsRequest_def Let_def split: http_outcome.splits sum.splits)

lemma callGetValidAccessToken_effect:
  "callGetValidAccessToken env w = (x, w1) \<Longrightarrow>
   requests w1 = requests w \<and> tokenCalls w1 = Suc (tokenCalls w)
   \<and> storagesCreated w1 = storagesCreated w \<and> x = getValidAccessToken env (tokenCalls w)"
  by (auto simp: callGetValidAccessToken_def)

text \<open>What a call can do to the world: with the flag set, and without.\<close>

lemma retry_effect:
  assumes "callGraphAPI env w t m p d q True = (x, w', q')"
  shows "tokenCalls w' = tokenCalls w \<and> storagesCreated w' = storagesCreated w
     \<and> (requests w' = requests w \<or> (\<exists>req. requests w' = requests w @ [req]))"
  using assms unfolding callGraphAPI_retry
  by (auto split: if_splits sum.splits prod.splits dest!: httpsRequest_effect)

lemma first_effect:
  assumes "callGraphAPI env w t m p d q False = (x, w', q')"
  shows "tokenCalls w' \<le> Suc (tokenCalls w) \<and> storagesCreated w' = storagesCreated w
     \<and> (\<exists>reqs. requests w' = requests w @ reqs \<and> length reqs \<le> 2)"
  using assms
  apply (subst (asm) callGraphAPI.simps)
  apply (auto split: if_splits sum.splits prod.splits token_result.splits
        dest!: httpsRequest_effect callGetValidAccessToken_effect retry_effect)
  done

lemma retry_sends:
  assumes "\<not> testMode env t" "stringifies env d"
    and "callGraphAPI env w t m p d q True = (x, w', q')"
  shows "requests w' = requests w @ [firstRequest env t m p d q]"
  using assms unfolding callGraphAPI_retry
  by (auto simp: prepare_ok firstRequest_def split: sum.splits prod.splits if_splits
           dest!: httpsRequest_effect)

text \<open>The three ways a response is handled, once the request has been made.\<close>

lemma callGraphAPI_2xx:
  assumes "\<not> testMode env t" "stringifies env d"
    and "network env (length (requests w)) = Response st b" "200 \<le> st" "st < 300"
  shows "callGraphAPI env w t m p d q r =
     (case JSON_parse env (if b \<noteq> [] then b else ''{}'') of
        Inl msg \<Rightarrow> Inl (newError (''Error parsing API response: '' @ msg))
      | Inr j \<Rightarrow> Inr j,
      w\<lparr>requests := requests w @ [firstRequest env t m p d q]\<rparr>,
      snd (buildFinalUrl (GRAPH_API_ENDPOINT env) p q))"
  using assms
  by (subst callGraphAPI.simps)
     (auto simp: prepare_ok httpsRequest_response firstRequest_def split: sum.splits prod.splits)

lemma callGraphAPI_other:
  assumes "\<not> testMode env t" "stringifies env d"
    and "network env (length (requests w)) = Response st b" "\<not> (200 \<le> st \<and> st < 300)"
    and "st \<noteq> 401 \<or> r"
  shows "callGraphAPI env w t m p d q r =
     (Inl (newError (''API call failed with status '' @ showNat st @ '': '' @ b)),
      w\<lparr>requests := requests w @ [firstRequest env t m p d q]\<rparr>,
      snd (buildFinalUrl (GRAPH_API_ENDPOINT env) p q))"
  using assms
  by (subst callGraphAPI.simps)
     (auto simp: prepare_ok httpsRequest_response firstRequest_def split: sum.splits prod.splits)

lemma callGraphAPI_401:
  assumes "\<not> testMode env t" "stringifies env d"
    and "network env (length (requests w)) = Response 401 b"
  shows "callGraphAPI env w t m p d q False =
     (let qp = snd (buildFinalUrl (GRAPH_API_ENDPOINT env) p q);
          w2 = w\<lparr>requests := requests w @ [firstRequest env t m p d q],
                  tokenCalls := Suc (tokenCalls w)\<rparr>
      in case getValidAccessToken env (tokenCalls w) of
           Rejects refreshError \<Rightarrow> (Inl (unauthorized (message refreshError) b), w2, qp)
         | Resolves fresh \<Rightarrow>
             (if fresh = None \<or> fresh = Some [] then
                (Inl (newError ''UNAUTHORIZED: refresh failed or no refresh_token''), w2, qp)
              else
                (case callGraphAPI env w2 (the fresh) m p d qp True of
                   (Inl refreshError, w3, qp3) \<Rightarrow>
                     (Inl (unauthorized (message refreshError) b), w3, qp3)
                 | (Inr retryResult, w3, qp3) \<Rightarrow> (Inr retryResult, w3, qp3))))"
  using assms
  by (subst callGraphAPI.simps)
     (auto simp: prepare_ok httpsRequest_response firstRequest_def callGetValidAccessToken_def
           split: sum.splits prod.splits token_result.splits)

lemma showNat_401: "showNat 401 = ''401''"
  by (simp add: showNat.simps)

text \<open>Facts for running the functions on concrete inputs.\<close>

lemmas url_defs = buildFinalUrl_def isFullUrl_def startsWith_def buildQueryString_def
  deleteKey_def URLSearchParams_toString_def formEncode_def formSafe_def encodePath_def
  encodeURIComponent_def uriUnreserved_def alphanumeric_def percentByte_def hexDigit_def

lemmas gateway_defs = sampleEnv_def world0_def parseTable_def testMode_def prepare_def
  dataTruthy_def writesBody_def theRequest_def httpsRequest_def callGetValidAccessToken_def
  unauthorized_def newError_def stringifies_def firstRequest_def Let_def

lemmas page_defs = threePages_def threePagesEnv_def pageObject_def isPage_def hasCursor_def
  allItemsOf_def pageRequests_def

lemma first_sends:
  assumes "\<not> testMode env t" "stringifies env d"
    and "callGraphAPI env w t m p d q r = (x, w', q')"
  shows "\<exists>rest. requests w' = requests w @ firstRequest env t m p d q # rest"
proof (cases r)
  case True
  with retry_sends [OF assms(1,2)] assms(3) show ?thesis by auto
next
  case False
  with assms show ?thesis
    apply (subst (asm) callGraphAPI.simps)
    apply (auto simp: prepare_ok firstRequest_def
        split: if_splits sum.splits prod.splits token_result.splits
        dest!: httpsRequest_effect callGetValidAccessToken_effect retry_effect)
    done
qed

lemma isFullUrl_nonempty: "isFullUrl c \<Longrightarrow> c \<noteq> []"
  by (auto simp: isFullUrl_def startsWith_def)

lemma stringifies_None: "stringifies env None"
  by (simp add: stringifies_def dataTruthy_def)

lemma fetch_page:
  assumes nt: "\<not> testMode env t" and pg: "isPage env (network env (length (requests w))) pg"
  shows "\<exists>props. callGraphAPI_url env w t m (JString p) qs =
            (Inr (JObject props), w\<lparr>requests := requests w @ [firstRequest env t m p None qs]\<rparr>,
             snd (buildFinalUrl (GRAPH_API_ENDPOINT env) p qs))
          \<and> map_of props ''value'' = Some (JArray (fst pg))
          \<and> map_of props ''@odata.nextLink'' = map_option JString (snd pg)"
proof -
  from pg obtain st b props where
    r: "network env (length (requests w)) = Response st b" "200 \<le> st" "st < 300" "b \<noteq> []"
    and p: "JSON_parse env b = Inr (JObject props)"
    and f: "map_of props ''value'' = Some (JArray (fst pg))"
       "map_of props ''@odata.nextLink'' = map_option JString (snd pg)"
    by (auto simp: isPage_def split: http_outcome.splits sum.splits json.splits)
  show ?thesis
    using callGraphAPI_2xx [OF nt stringifies_None r(1,2,3), of m p qs False] r(4) p f
    by (auto simp: callGraphAPI_url_def)
qed

text \<open>Facts about the encoders.\<close>

lemma join_nonempty: "xs \<noteq> [] \<Longrightarrow> \<forall>x\<in>set xs. x \<noteq> [] \<Longrightarrow> join sep xs \<noteq> []"
  by (induction sep xs rule: join.induct) auto

lemma toString_empty: "(URLSearchParams_toString ps = []) = (ps = [])"
proof (cases ps)
  case Nil
  then show ?thesis by (simp add: URLSearchParams_toString_def)
next
  case (Cons a list)
  have "join ''&'' (map (\<lambda>(k, v). formEncode k @ ''='' @ formEncode v) ps) \<noteq> []"
    by (rule join_nonempty) (auto simp: Cons split: prod.splits)
  then show ?thesis by (simp add: URLSearchParams_toString_def Cons)
qed

lemma no_filter_entry:
  "map_of ps k = None \<Longrightarrow> filter (\<lambda>(k', v). k' \<noteq> k) ps = ps"
  by (induction ps) (auto split: if_splits)

lemma buildFinalUrl_spec: "\<not> isFullUrl path \<Longrightarrow> map_of queryParams ''$filter'' \<noteq> Some [] \<Longrightarrow>
   fst (buildFinalUrl endpoint path queryParams) = endpoint @ encodePath path @ specQueryString queryParams"
  apply (cases "map_of queryParams ''$filter''")
  apply (auto simp: buildFinalUrl_def buildQueryString_def specQueryString_def Let_def deleteKey_def toString_empty no_filter_entry split: prod.splits)
  done

section \<open>Pagination is for GET only\<close>

text \<open>
  Claim C7. For every method other than \<open>GET\<close>, \<open>callGraphAPIPaginated\<close> fails at
  once with the error "Pagination only supports GET requests": it returns (the run
  is not \<open>None\<close>), and the world is the one it was called in, so no request was
  issued, no token was asked for, and no item was collected.
\<close>

theorem paginated_rejects_non_GET:
  "method \<noteq> ''GET'' \<Longrightarrow>
   callGraphAPIPaginated env w accessToken method path queryParams maxCount =
     Some (Inl (newError ''Pagination only supports GET requests''), w)"
  by (simp add: callGraphAPIPaginated_def)

theorem paginated_rejects_non_GET_witness:
  "''POST'' \<noteq> ''GET'' \<and>
   callGraphAPIPaginated (sampleEnv [] [Response 200 ''{}''] []) world0 ''token'' ''POST''
       ''me/messages'' [(''$top'', ''5'')] 0 =
     Some (Inl (newError ''Pagination only supports GET requests''), world0)"
  using paginated_rejects_non_GET [of "''POST''" "sampleEnv [] [Response 200 ''{}''] []" world0
      "''token''" "''me/messages''" "[(''$top'', ''5'')]" 0]
  by simp

section \<open>Forcing a new authentication\<close>

text \<open>
  Claim C10. \<open>ensureAuthenticated\<close> with \<open>forceNew = true\<close> throws the error
  "Authentication required" in every world and leaves the world as it was: no
  \<open>TokenStorage\<close> is made and \<open>getValidAccessToken\<close> is not called. With
  \<open>forceNew = false\<close> it makes one \<open>TokenStorage\<close> and calls
  \<open>getValidAccessToken\<close> once.
\<close>

theorem ensureAuthenticated_forceNew:
  "ensureAuthenticated env w True = (Inl (newError ''Authentication required''), w)
   \<and> tokenCalls (snd (ensureAuthenticated env w False)) = Suc (tokenCalls w)
   \<and> storagesCreated (snd (ensureAuthenticated env w False)) = Suc (storagesCreated w)"
  by (auto simp: ensureAuthenticated_def callGetValidAccessToken_def
           split: token_result.splits)

section \<open>One refresh and one retry\<close>

text \<open>
  Claim C1. Let one call of \<open>callGraphAPI\<close> without the flag \<open>_isRetry\<close> end in the
  world \<open>w'\<close>, and the same call with the flag set in \<open>wR\<close>. For every input, the
  call without the flag issues at most two requests and asks the token storage at
  most once; the call with the flag issues at most one request and never asks the
  token storage. When the first answer is a 401 (outside test mode, the payload
  being serialisable): with the flag set the call fails with the error of that
  answer; without it the token storage is asked exactly once, and when that gives
  a non-empty token the request is issued exactly once more, with that token. A
  401 to this second request ends the call with an error "UNAUTHORIZED: ..." whose
  \<open>statusCode\<close> is 401: two requests, no third.
\<close>

theorem callGraphAPI_single_retry:
  assumes first:
      "callGraphAPI env w accessToken method path data queryParams False = (result, w', qp')"
    and again:
      "callGraphAPI env w accessToken method path data queryParams True = (resultR, wR, qpR)"
  shows "length (requests w') \<le> length (requests w) + 2 \<and> tokenCalls w' \<le> tokenCalls w + 1
    \<and> length (requests wR) \<le> length (requests w) + 1 \<and> tokenCalls wR = tokenCalls w
    \<and> (\<not> testMode env accessToken \<and> stringifies env data
         \<and> network env (length (requests w)) = Response 401 body1 \<longrightarrow>
        resultR = Inl (newError (''API call failed with status 401: '' @ body1))
        \<and> tokenCalls w' = tokenCalls w + 1
        \<and> (getValidAccessToken env (tokenCalls w) = Resolves (Some fresh) \<and> fresh \<noteq> []
             \<and> \<not> testMode env fresh \<longrightarrow>
            length (requests w') = length (requests w) + 2
            \<and> authorization (last (requests w')) = ''Bearer '' @ fresh
            \<and> (network env (length (requests w) + 1) = Response 401 body2 \<longrightarrow>
                 result = Inl (unauthorized (''API call failed with status 401: '' @ body2)
                                 body1))))"
proof -
  have bounds:
    "length (requests w') \<le> length (requests w) + 2 \<and> tokenCalls w' \<le> tokenCalls w + 1"
    using first_effect [OF first] by auto
  have boundsR:
    "length (requests wR) \<le> length (requests w) + 1 \<and> tokenCalls wR = tokenCalls w"
    using retry_effect [OF again] by auto
  have on401: "resultR = Inl (newError (''API call failed with status 401: '' @ body1))
        \<and> tokenCalls w' = tokenCalls w + 1
        \<and> (getValidAccessToken env (tokenCalls w) = Resolves (Some fresh) \<and> fresh \<noteq> []
             \<and> \<not> testMode env fresh \<longrightarrow>
            length (requests w') = length (requests w) + 2
            \<and> authorization (last (requests w')) = ''Bearer '' @ fresh
            \<and> (network env (length (requests w) + 1) = Response 401 body2 \<longrightarrow>
                 result = Inl (unauthorized (''API call failed with status 401: '' @ body2)
                                 body1)))"
    if nt: "\<not> testMode env accessToken" and st: "stringifies env data"
      and r1: "network env (length (requests w)) = Response 401 body1"
  proof -
    have R: "resultR = Inl (newError (''API call failed with status 401: '' @ body1))"
      using again callGraphAPI_other [OF nt st r1, of True "method" "path" "queryParams"]
      by (simp add: showNat_401)
    note unf = callGraphAPI_401 [OF nt st r1, of "method" "path" "queryParams"]
    define w2 where "w2 = w\<lparr>requests := requests w
        @ [firstRequest env accessToken method path data queryParams],
        tokenCalls := Suc (tokenCalls w)\<rparr>"
    define qp where "qp = snd (buildFinalUrl (GRAPH_API_ENDPOINT env) path queryParams)"
    have tc: "tokenCalls w' = tokenCalls w + 1"
    proof (cases "getValidAccessToken env (tokenCalls w)")
      case (Rejects e)
      then show ?thesis using first unf by (auto simp add: Let_def)
    next
      case (Resolves fr)
      show ?thesis
      proof (cases "fr = None \<or> fr = Some []")
        case True
        then show ?thesis using first unf Resolves by (auto simp add: Let_def)
      next
        case False
        obtain x w3 q3 where
          inner: "callGraphAPI env w2 (the fr) method path data qp True = (x, w3, q3)"
          by (metis prod_cases3)
        from retry_effect [OF inner] have "tokenCalls w3 = tokenCalls w2" by simp
        moreover have "w' = w3"
          using first unf Resolves False inner
          by (auto simp: Let_def w2_def qp_def split: sum.splits)
        ultimately show ?thesis by (simp add: w2_def)
      qed
    qed
    have retry: "length (requests w') = length (requests w) + 2
            \<and> authorization (last (requests w')) = ''Bearer '' @ fresh
            \<and> (network env (length (requests w) + 1) = Response 401 body2 \<longrightarrow>
                 result = Inl (unauthorized (''API call failed with status 401: '' @ body2)
                                 body1))"
      if tk: "getValidAccessToken env (tokenCalls w) = Resolves (Some fresh)"
        and ne: "fresh \<noteq> []" and nt2: "\<not> testMode env fresh"
    proof -
      obtain x w3 q3 where
        inner: "callGraphAPI env w2 fresh method path data qp True = (x, w3, q3)"
        by (metis prod_cases3)
      have res: "w' = w3 \<and> result = (case x of Inl e \<Rightarrow> Inl (unauthorized (message e) body1)
                                      | Inr r \<Rightarrow> Inr r)"
        using first unf tk ne inner
        by (auto simp: Let_def w2_def qp_def split: sum.splits)
      have len2: "length (requests w2) = length (requests w) + 1"
        by (simp add: w2_def)
      have sent: "requests w3 = requests w2 @ [firstRequest env fresh method path data qp]"
        using retry_sends [OF nt2 st inner] .
      have a: "length (requests w') = length (requests w) + 2"
        using res sent len2 by simp
      have b: "authorization (last (requests w')) = ''Bearer '' @ fresh"
        using res sent by (simp add: firstRequest_def theRequest_def)
      have c: "result = Inl (unauthorized (''API call failed with status 401: '' @ body2) body1)"
        if r2: "network env (length (requests w) + 1) = Response 401 body2"
      proof -
        have "network env (length (requests w2)) = Response 401 body2"
          using r2 len2 by simp
        from callGraphAPI_other [OF nt2 st this, of True "method" "path" qp] inner
        have "x = Inl (newError (''API call failed with status 401: '' @ body2))"
          by (simp add: showNat_401)
        then show ?thesis using res by (simp add: newError_def)
      qed
      from a b c show ?thesis by blast
    qed
    from R tc retry show ?thesis by blast
  qed
  from bounds boundsR on401 show ?thesis by blast
qed

text \<open>
  The theorem at a stale token, a 401 to the first request, a fresh token from the
  storage and a 401 to the second request.
\<close>

theorem callGraphAPI_single_retry_witness:
  "callGraphAPI (sampleEnv [] [Response 401 ''expired'', Response 401 ''denied'']
        [Resolves (Some ''fresh'')]) world0 ''stale'' ''GET'' ''me/messages'' None [] False =
     (Inl \<lparr>message = ''UNAUTHORIZED: API call failed with status 401: denied'',
            statusCode = Some 401, body = Some ''expired''\<rparr>,
      \<lparr>requests =
         [\<lparr>url = ''https://graph.microsoft.com/v1.0/me/messages'', httpMethod = ''GET'',
            authorization = ''Bearer stale'', payload = None\<rparr>,
          \<lparr>url = ''https://graph.microsoft.com/v1.0/me/messages'', httpMethod = ''GET'',
            authorization = ''Bearer fresh'', payload = None\<rparr>],
       tokenCalls = 1, storagesCreated = 0\<rparr>,
      [])
   \<and> callGraphAPI (sampleEnv [] [Response 401 ''expired'', Response 401 ''denied'']
        [Resolves (Some ''fresh'')]) world0 ''stale'' ''GET'' ''me/messages'' None [] True =
     (Inl \<lparr>message = ''API call failed with status 401: expired'',
            statusCode = None, body = None\<rparr>,
      \<lparr>requests =
         [\<lparr>url = ''https://graph.microsoft.com/v1.0/me/messages'', httpMethod = ''GET'',
            authorization = ''Bearer stale'', payload = None\<rparr>],
       tokenCalls = 0, storagesCreated = 0\<rparr>,
      [])"
proof -
  let ?env = "sampleEnv [] [Response 401 ''expired'', Response 401 ''denied'']
        [Resolves (Some ''fresh'')]"
  obtain result w' qp' where first:
    "callGraphAPI ?env world0 ''stale'' ''GET'' ''me/messages'' None [] False = (result, w', qp')"
    by (metis prod_cases3)
  obtain resultR wR qpR where again:
    "callGraphAPI ?env world0 ''stale'' ''GET'' ''me/messages'' None [] True = (resultR, wR, qpR)"
    by (metis prod_cases3)
  have hyps: "\<not> testMode ?env ''stale'' \<and> stringifies ?env None
      \<and> network ?env (length (requests world0)) = Response 401 ''expired''"
    "getValidAccessToken ?env (tokenCalls world0) = Resolves (Some ''fresh'') \<and> ''fresh'' \<noteq> []
      \<and> \<not> testMode ?env ''fresh''"
    "network ?env (length (requests world0) + 1) = Response 401 ''denied''"
    by (simp_all add: gateway_defs)
  from callGraphAPI_single_retry [OF first again, of "''expired''" "''fresh''" "''denied''"] hyps
  have "resultR = Inl (newError ''API call failed with status 401: expired'')"
    and "result = Inl (unauthorized ''API call failed with status 401: denied'' ''expired'')"
    and "length (requests w') = 2" and "tokenCalls w' = 1"
    by (simp_all add: world0_def)
  with first again show ?thesis
    by (simp add: callGraphAPI.simps gateway_defs url_defs showNat.simps)
qed

section \<open>Other failures of the API\<close>

text \<open>
  The call that receives the answer. When the answer to the request of a call of
  \<open>callGraphAPI\<close> (with the flag \<open>_isRetry\<close> set or not) has a status that is
  neither 2xx nor 401, that call rejects with an error whose message holds the
  status code in decimal and the raw response body, "API call failed with status
  <code>: <body>" (the error has no \<open>statusCode\<close> and no \<open>body\<close> property); the
  world then holds that one request more and nothing else.
\<close>

lemma callGraphAPI_api_error:
  assumes "\<not> testMode env accessToken" and "stringifies env data"
    and "network env (length (requests w)) = Response st responseData"
    and "\<not> (200 \<le> st \<and> st < 300)" and "st \<noteq> 401"
  shows "callGraphAPI env w accessToken method path data queryParams isRetry =
     (Inl \<lparr>message = ''API call failed with status '' @ showNat st @ '': '' @ responseData,
            statusCode = None, body = None\<rparr>,
      w\<lparr>requests := requests w @ [firstRequest env accessToken method path data queryParams]\<rparr>,
      snd (buildFinalUrl (GRAPH_API_ENDPOINT env) path queryParams))"
  using callGraphAPI_other [of env accessToken data w st responseData isRetry "method" "path"
      queryParams] assms
  by (simp add: newError_def)

lemma callGraphAPI_api_error_example:
  "\<not> testMode (sampleEnv [] [Response 500 ''boom''] []) ''token''
   \<and> stringifies (sampleEnv [] [Response 500 ''boom''] []) None
   \<and> network (sampleEnv [] [Response 500 ''boom''] []) (length (requests world0)) = Response 500 ''boom''
   \<and> \<not> (200 \<le> (500::nat) \<and> (500::nat) < 300) \<and> (500::nat) \<noteq> 401
   \<and> callGraphAPI (sampleEnv [] [Response 500 ''boom''] []) world0 ''token'' ''GET''
        ''me/messages'' None [] False =
     (Inl \<lparr>message = ''API call failed with status 500: boom'', statusCode = None, body = None\<rparr>,
      \<lparr>requests =
         [\<lparr>url = ''https://graph.microsoft.com/v1.0/me/messages'', httpMethod = ''GET'',
            authorization = ''Bearer token'', payload = None\<rparr>],
       tokenCalls = 0, storagesCreated = 0\<rparr>,
      [])"
proof -
  let ?env = "sampleEnv [] [Response 500 ''boom''] []"
  have h: "\<not> testMode ?env ''token''" "stringifies ?env None"
    "network ?env (length (requests world0)) = Response 500 ''boom''"
    "\<not> (200 \<le> (500::nat) \<and> (500::nat) < 300)" "(500::nat) \<noteq> 401"
    by (simp_all add: gateway_defs)
  from callGraphAPI_api_error [OF h, of "''GET''" "''me/messages''" "[]" False] h
  show ?thesis
    by (simp add: gateway_defs url_defs showNat.simps)
qed

text \<open>
  The caller of a retried request. When the first answer is a 401, the token
  storage gives a fresh token and the answer to the retried request is not a 2xx,
  the rejection of the inner call is caught at line 138 and wrapped: the caller
  gets "UNAUTHORIZED: " followed by the inner message, with \<open>statusCode\<close> 401 and
  the body of the first answer.
\<close>

lemma retried_other_status:
  assumes nt: "\<not> testMode env t" and st: "stringifies env d"
    and r1: "network env (length (requests w)) = Response 401 b1"
    and tk: "getValidAccessToken env (tokenCalls w) = Resolves (Some fresh)"
    and ne: "fresh \<noteq> []" and nt2: "\<not> testMode env fresh"
    and r2: "network env (Suc (length (requests w))) = Response code b2"
    and no2xx: "\<not> (200 \<le> code \<and> code < 300)"
  shows "fst (callGraphAPI env w t m p d q False) =
     Inl \<lparr>message = ''UNAUTHORIZED: API call failed with status '' @ showNat code @ '': '' @ b2,
          statusCode = Some 401, body = Some b1\<rparr>"
proof -
  define qp where "qp = snd (buildFinalUrl (GRAPH_API_ENDPOINT env) p q)"
  define w2 where "w2 = w\<lparr>requests := requests w @ [firstRequest env t m p d q],
      tokenCalls := Suc (tokenCalls w)\<rparr>"
  have "network env (length (requests w2)) = Response code b2"
    using r2 by (simp add: w2_def)
  from callGraphAPI_other [OF nt2 st this no2xx, of True m p qp]
  have "fst (callGraphAPI env w2 fresh m p d qp True) =
      Inl (newError (''API call failed with status '' @ showNat code @ '': '' @ b2))"
    by simp
  then show ?thesis
    using callGraphAPI_401 [OF nt st r1, of m p q] tk ne
    by (auto simp: Let_def w2_def qp_def unauthorized_def newError_def split: sum.splits prod.splits)
qed

text \<open>
  Claim C8 fails on the code. A 401 to the first request, a fresh token, and a 500
  with the body "boom" to the retried request: the caller's call rejects with an
  error that says UNAUTHORIZED, whose \<open>statusCode\<close> is 401 and whose \<open>body\<close> is
  that of the 401; the status 500 and its body are left only inside the message
  text.
\<close>

theorem retried_500_reported_unauthorized:
  "callGraphAPI (sampleEnv [] [Response 401 ''expired'', Response 500 ''boom'']
        [Resolves (Some ''fresh'')]) world0 ''stale'' ''GET'' ''me/messages'' None [] False =
     (Inl \<lparr>message = ''UNAUTHORIZED: API call failed with status 500: boom'',
            statusCode = Some 401, body = Some ''expired''\<rparr>,
      \<lparr>requests =
         [\<lparr>url = ''https://graph.microsoft.com/v1.0/me/messages'', httpMethod = ''GET'',
            authorization = ''Bearer stale'', payload = None\<rparr>,
          \<lparr>url = ''https://graph.microsoft.com/v1.0/me/messages'', httpMethod = ''GET'',
            authorization = ''Bearer fresh'', payload = None\<rparr>],
       tokenCalls = 1, storagesCreated = 0\<rparr>,
      [])"
  by (simp add: callGraphAPI.simps gateway_defs url_defs showNat.simps)

section \<open>Empty bodies\<close>

text \<open>
  Claim C9. Let the answer to the request of a call of \<open>callGraphAPI\<close> have a 2xx
  status, in a runtime where \<open>JSON.parse('{}')\<close> is the empty object. When the
  body is empty the call resolves with the empty object. The call fails exactly
  when the body is not empty and \<open>JSON.parse\<close> raises on it, and then the error
  is "Error parsing API response: <the parser's message>".
\<close>

theorem callGraphAPI_empty_body:
  assumes "\<not> testMode env accessToken" and "stringifies env data"
    and "network env (length (requests w)) = Response st responseData"
    and "200 \<le> st" and "st < 300"
    and "JSON_parse env ''{}'' = Inr (JObject [])"
  shows "(responseData = [] \<longrightarrow>
            callGraphAPI env w accessToken method path data queryParams isRetry =
              (Inr (JObject []),
               w\<lparr>requests := requests w
                    @ [firstRequest env accessToken method path data queryParams]\<rparr>,
               snd (buildFinalUrl (GRAPH_API_ENDPOINT env) path queryParams)))
     \<and> (isl (fst (callGraphAPI env w accessToken method path data queryParams isRetry))
          = (responseData \<noteq> [] \<and> isl (JSON_parse env responseData)))
     \<and> (responseData \<noteq> [] \<and> isl (JSON_parse env responseData) \<longrightarrow>
          fst (callGraphAPI env w accessToken method path data queryParams isRetry) =
            Inl (newError (''Error parsing API response: ''
                             @ projl (JSON_parse env responseData))))"
  using callGraphAPI_2xx [of env accessToken data w st responseData "method" "path"
      queryParams isRetry] assms
  by (auto split: sum.splits)

theorem callGraphAPI_empty_body_witness:
  "\<not> testMode (sampleEnv [(''{}'', JObject [])] [Response 204 []] []) ''token''
   \<and> stringifies (sampleEnv [(''{}'', JObject [])] [Response 204 []] []) None
   \<and> network (sampleEnv [(''{}'', JObject [])] [Response 204 []] []) (length (requests world0))
       = Response 204 []
   \<and> 200 \<le> (204::nat) \<and> (204::nat) < 300
   \<and> JSON_parse (sampleEnv [(''{}'', JObject [])] [Response 204 []] []) ''{}'' = Inr (JObject [])
   \<and> callGraphAPI (sampleEnv [(''{}'', JObject [])] [Response 204 []] []) world0 ''token''
        ''DELETE'' ''me/messages/42'' None [] False =
     (Inr (JObject []),
      \<lparr>requests =
         [\<lparr>url = ''https://graph.microsoft.com/v1.0/me/messages/42'', httpMethod = ''DELETE'',
            authorization = ''Bearer token'', payload = None\<rparr>],
       tokenCalls = 0, storagesCreated = 0\<rparr>,
      [])"
proof -
  let ?env = "sampleEnv [(''{}'', JObject [])] [Response 204 []] []"
  have h: "\<not> testMode ?env ''token''" "stringifies ?env None"
    "network ?env (length (requests world0)) = Response 204 []"
    "200 \<le> (204::nat)" "(204::nat) < 300"
    "JSON_parse ?env ''{}'' = Inr (JObject [])"
    by (simp_all add: gateway_defs)
  from callGraphAPI_empty_body [OF h, of "''DELETE''" "''me/messages/42''" "[]" False] h
  show ?thesis
    by (simp add: gateway_defs url_defs)
qed

section \<open>The query string\<close>

text \<open>
  Claim C4, as stated: for every query-parameter object and every relative path,
  the URL of the request is the endpoint, the encoded path and the query string of
  the specification. It fails for a \<open>$filter\<close> that is present and empty: line 60
  tests \<open>if (filter)\<close>, the empty string is falsy, so the entry stays among the
  general parameters and is form-encoded as \<open>%24filter=\<close>.
\<close>

theorem empty_filter_counterexample:
  "\<not> isFullUrl ''me/messages''
   \<and> url (firstRequest (sampleEnv [] [] []) ''token'' ''GET'' ''me/messages'' None
        [(''$filter'', [])]) = ''https://graph.microsoft.com/v1.0/me/messages?%24filter=''
   \<and> url (firstRequest (sampleEnv [] [] []) ''token'' ''GET'' ''me/messages'' None
        [(''$filter'', [])])
       \<noteq> GRAPH_API_ENDPOINT (sampleEnv [] [] []) @ encodePath ''me/messages''
           @ specQueryString [(''$filter'', [])]"
  by (simp add: specQueryString_def gateway_defs url_defs)

text \<open>
  Claim C4, amended. For every relative path and every query-parameter object:
  when \<open>$filter\<close> is absent or not empty, the URL of the request is the endpoint,
  the encoded path and the query string of the specification (general parameters
  form-encoded, \<open>$filter\<close> percent-encoded as a whole and last, joined by \<open>?\<close> and
  \<open>&\<close>, whether \<open>$filter\<close> is alone, absent or combined); when \<open>$filter\<close> is the
  empty string, it is form-encoded in its place like any other parameter.
\<close>

theorem query_string_encoding:
  assumes "\<not> isFullUrl path"
  shows "(map_of queryParams ''$filter'' \<noteq> Some [] \<longrightarrow>
            url (firstRequest env accessToken method path data queryParams) =
              GRAPH_API_ENDPOINT env @ encodePath path @ specQueryString queryParams)
     \<and> (map_of queryParams ''$filter'' = Some [] \<longrightarrow>
            url (firstRequest env accessToken method path data queryParams) =
              GRAPH_API_ENDPOINT env @ encodePath path @ ''?''
                @ URLSearchParams_toString queryParams)"
proof -
  have "queryParams \<noteq> []" if "map_of queryParams ''$filter'' = Some []"
    using that by auto
  then show ?thesis
    using buildFinalUrl_spec [OF assms, of queryParams "GRAPH_API_ENDPOINT env"] assms
    by (auto simp: firstRequest_def theRequest_def buildFinalUrl_def buildQueryString_def
          toString_empty split: prod.splits)
qed

theorem query_string_encoding_witness:
  "\<not> isFullUrl ''me/messages''
   \<and> map_of [(''$filter'', ''subject eq '' @ [CHR 0x27] @ ''hello world'' @ [CHR 0x27]),
             (''$top'', ''5'')] ''$filter'' \<noteq> Some []
   \<and> url (firstRequest (sampleEnv [] [] []) ''token'' ''GET'' ''me/messages'' None
        [(''$filter'', ''subject eq '' @ [CHR 0x27] @ ''hello world'' @ [CHR 0x27]),
         (''$top'', ''5'')]) =
     ''https://graph.microsoft.com/v1.0/me/messages?%24top=5&$filter=subject%20eq%20''
       @ [CHR 0x27] @ ''hello%20world'' @ [CHR 0x27]"
proof -
  have h: "\<not> isFullUrl ''me/messages''"
    by (simp add: url_defs)
  from query_string_encoding [OF h, of "[(''$filter'', ''subject eq '' @ [CHR 0x27] @ ''hello world'' @ [CHR 0x27]),
         (''$top'', ''5'')]" "sampleEnv [] [] []" "''token''" "''GET''" None] h
  show ?thesis
    by (simp add: specQueryString_def sampleEnv_def url_defs)
qed

section \<open>The retried request\<close>

text \<open>
  After a 401 and a fresh token, the second request is built from the same
  arguments, but from the query-parameter object as the first build left it.
\<close>

lemma retried_request:
  assumes "\<not> testMode env t" and "stringifies env d"
    and "network env (length (requests w)) = Response 401 b"
    and "getValidAccessToken env (tokenCalls w) = Resolves (Some fresh)" and "fresh \<noteq> []"
    and "\<not> testMode env fresh"
    and "callGraphAPI env w t m p d q False = (x, w', q')"
  shows "requests w' = requests w
           @ [firstRequest env t m p d q,
              firstRequest env fresh m p d (snd (buildFinalUrl (GRAPH_API_ENDPOINT env) p q))]"
proof -
  define qp where "qp = snd (buildFinalUrl (GRAPH_API_ENDPOINT env) p q)"
  define w2 where "w2 = w\<lparr>requests := requests w @ [firstRequest env t m p d q],
      tokenCalls := Suc (tokenCalls w)\<rparr>"
  obtain y w3 q3 where inner: "callGraphAPI env w2 fresh m p d qp True = (y, w3, q3)"
    by (metis prod_cases3)
  have "w' = w3"
    using assms(4,5,7) callGraphAPI_401 [OF assms(1,2,3), of m p q] inner
    by (auto simp: Let_def w2_def qp_def split: sum.splits)
  with retry_sends [OF assms(6,2) inner] show ?thesis
    by (simp add: w2_def qp_def)
qed

text \<open>
  Claim C3 fails on the code. With a non-empty \<open>$filter\<close>, a 401 to the first
  request and a fresh token, the first request carries the filter and the retried
  one does not: line 61 has deleted \<open>$filter\<close> from the very object that line 135
  passes to the retry.
\<close>

theorem retry_drops_filter:
  "callGraphAPI (sampleEnv [(''{}'', JObject [])] [Response 401 ''expired'', Response 200 ''{}'']
        [Resolves (Some ''fresh'')]) world0 ''stale'' ''GET'' ''me/messages'' None
        [(''$filter'', ''isRead eq false'')] False =
     (Inr (JObject []),
      \<lparr>requests =
         [\<lparr>url = ''https://graph.microsoft.com/v1.0/me/messages?$filter=isRead%20eq%20false'',
            httpMethod = ''GET'', authorization = ''Bearer stale'', payload = None\<rparr>,
          \<lparr>url = ''https://graph.microsoft.com/v1.0/me/messages'', httpMethod = ''GET'',
            authorization = ''Bearer fresh'', payload = None\<rparr>],
       tokenCalls = 1, storagesCreated = 0\<rparr>,
      [])"
  by (simp add: callGraphAPI.simps gateway_defs url_defs)

section \<open>Following a cursor\<close>

text \<open>
  The requests of a run of the loop that returns: those made before it, those of
  its first gateway call, and whatever follows.
\<close>

lemma url_call_effect:
  assumes "callGraphAPI_url env w t m u p = (x, w1, q)"
  shows "\<exists>rest. requests w1 = requests w @ rest"
proof (cases u)
  case (JString s)
  with assms have "callGraphAPI env w t m s None p False = (x, w1, q)"
    by (simp add: callGraphAPI_url_def)
  from first_effect [OF this] show ?thesis by blast
qed (insert assms, auto simp: callGraphAPI_url_def split: if_splits)

lemma loop_requests_extend:
  assumes "paginationLoop env t m mc w u p a = Some y"
  shows "\<exists>rest. requests (snd y) = requests w @ rest"
proof (rule paginationLoop.raw_induct
    [where P = "\<lambda>env t m mc w u p a y. \<exists>rest. requests (snd y) = requests w @ rest",
      OF _ assms])
  fix loop :: "env \<Rightarrow> string \<Rightarrow> string \<Rightarrow> int \<Rightarrow> world \<Rightarrow> json \<Rightarrow> params \<Rightarrow> json list
      \<Rightarrow> ((js_error + json) \<times> world) option"
    and env :: env and t m :: string and mc :: int and w :: world and u :: json
    and p :: params and a :: "json list" and y :: "(js_error + json) \<times> world"
  assume IH: "\<And>e t m mc w u p a y. loop e t m mc w u p a = Some y \<Longrightarrow>
                \<exists>rest. requests (snd y) = requests w @ rest"
  assume body: "(case callGraphAPI_url env w t m u p of
      (Inl error, w1, qp) \<Rightarrow> Some (Inl error, w1)
    | (Inr response, w1, qp) \<Rightarrow>
        (case getProperty response ''value'' of
           Inl error \<Rightarrow> Some (Inl error, w1)
         | Inr v \<Rightarrow>
             (let allItems' = (case v of Some (JArray items) \<Rightarrow> a @ items | _ \<Rightarrow> a)
              in if mc > 0 \<and> int (length allItems') \<ge> mc
                 then Some (Inr (finalResult mc allItems'), w1)
                 else
                   (case getProperty response ''@odata.nextLink'' of
                      Inl error \<Rightarrow> Some (Inl error, w1)
                    | Inr nextLink \<Rightarrow>
                        (if truthyOpt nextLink
                         then loop env t m mc w1 (the nextLink) [] allItems'
                         else Some (Inr (finalResult mc allItems'), w1)))))) = Some y"
  obtain x w1 q where c: "callGraphAPI_url env w t m u p = (x, w1, q)"
    by (metis prod_cases3)
  from url_call_effect [OF c] obtain rest where r: "requests w1 = requests w @ rest"
    by blast
  have "\<exists>rest'. requests (snd y) = requests w1 @ rest'"
    using body IH [of env t m mc w1 _ "[]" _ y]
    by (auto simp: c Let_def split: sum.splits if_splits)
  with r show "\<exists>rest. requests (snd y) = requests w @ rest" by auto
qed


lemma loop_after_call:
  assumes "paginationLoop env t m mc w u p a = Some y"
    and "callGraphAPI_url env w t m u p = (x, w1, q)"
  shows "\<exists>rest. requests (snd y) = requests w1 @ rest"
  using assms(1)
  apply (subst (asm) paginationLoop.simps)
  apply (auto simp: assms(2) Let_def split: sum.splits if_splits dest: loop_requests_extend)
  done

lemma cursor_request:
  "firstRequest env accessToken method cursor None [] =
     \<lparr>url = (if isFullUrl cursor then cursor else GRAPH_API_ENDPOINT env @ encodePath cursor),
      httpMethod = method, authorization = ''Bearer '' @ accessToken, payload = None\<rparr>"
  by (simp add: firstRequest_def theRequest_def buildFinalUrl_def buildQueryString_def
        writesBody_def dataTruthy_def)

text \<open>
  Claim C6, as stated: whenever a response carries a continuation cursor and
  pagination continues, the next request goes to the cursor URL verbatim. It fails
  for a cursor that line 44 does not take for a full URL, such as an absolute URL
  whose scheme is written in upper case (or a relative one): the cursor is then
  handled as a path, percent-encoded and appended to the base endpoint.
\<close>

theorem cursor_reencoded_counterexample:
  "callGraphAPIPaginated upperCaseEnv world0 ''token'' ''GET'' ''me/messages'' [] 0 =
     Some (Inr (JObject [(''value'', JArray [JString ''a'', JString ''b'']),
                         (''@odata.count'', JNumber 2)]),
           \<lparr>requests =
              [\<lparr>url = ''https://graph.microsoft.com/v1.0/me/messages'', httpMethod = ''GET'',
                 authorization = ''Bearer token'', payload = None\<rparr>,
               \<lparr>url = ''https://graph.microsoft.com/v1.0/HTTPS%3A//graph.microsoft.com/v1.0/me/messages%3F%24skip%3D1'',
                 httpMethod = ''GET'', authorization = ''Bearer token'', payload = None\<rparr>],
            tokenCalls = 0, storagesCreated = 0\<rparr>)
   \<and> ''https://graph.microsoft.com/v1.0/HTTPS%3A//graph.microsoft.com/v1.0/me/messages%3F%24skip%3D1''
       \<noteq> ''HTTPS://graph.microsoft.com/v1.0/me/messages?$skip=1''"
  by (simp add: callGraphAPIPaginated_def paginationLoop.simps callGraphAPI_url_def
        callGraphAPI.simps getProperty_def truthyOpt_def finalResult_def upperCaseEnv_def
        gateway_defs url_defs)

text \<open>
  Claim C6, amended. Outside test mode, let a gateway call inside the pagination
  loop return an object that carries a continuation cursor (a non-empty string),
  and let the loop go on (no bound, or the bound not reached). The loop then makes
  its next gateway call with the cursor and an empty query-parameter object, and
  the request of that call goes to the cursor itself when the cursor starts with
  \<open>http://\<close> or \<open>https://\<close>, and otherwise to the base endpoint followed by the
  percent-encoded cursor, with no query string. In terms of the run: the world
  \<open>w2\<close> after that call holds this request next after those made before; when
  the call fails the loop returns its error in \<open>w2\<close>; when it gives an object
  with no cursor the loop returns a result in \<open>w2\<close>; and whenever the loop
  returns, its requests continue those made before with this request.
\<close>

theorem cursor_followed:
  assumes nt: "\<not> testMode env accessToken"
    and page: "callGraphAPI_url env w accessToken method currentUrl currentParams =
                 (Inr (JObject props), w1, qp1)"
    and cursor: "map_of props ''@odata.nextLink'' = Some (JString cursor)"
    and nonempty: "cursor \<noteq> []"
    and items: "allItems' = (case map_of props ''value'' of Some (JArray items) \<Rightarrow> allItems @ items
                             | _ \<Rightarrow> allItems)"
    and continues: "\<not> (maxCount > 0 \<and> maxCount \<le> int (length allItems'))"
    and nextCall: "callGraphAPI env w1 accessToken method cursor None [] False = (x, w2, qp2)"
  shows "(\<exists>rest. requests w2 = requests w1
            @ \<lparr>url = (if isFullUrl cursor then cursor
                       else GRAPH_API_ENDPOINT env @ encodePath cursor),
                httpMethod = method, authorization = ''Bearer '' @ accessToken,
                payload = None\<rparr> # rest)
     \<and> (\<forall>error. x = Inl error \<longrightarrow>
           paginationLoop env accessToken method maxCount w currentUrl currentParams allItems =
             Some (Inl error, w2))
     \<and> (\<forall>props2. x = Inr (JObject props2) \<and> \<not> truthyOpt (map_of props2 ''@odata.nextLink'') \<longrightarrow>
           (\<exists>result. paginationLoop env accessToken method maxCount w currentUrl currentParams
                        allItems = Some (Inr result, w2)))
     \<and> (\<forall>y. paginationLoop env accessToken method maxCount w currentUrl currentParams allItems
               = Some y \<longrightarrow>
           (\<exists>rest. requests (snd y) = requests w1
              @ \<lparr>url = (if isFullUrl cursor then cursor
                         else GRAPH_API_ENDPOINT env @ encodePath cursor),
                  httpMethod = method, authorization = ''Bearer '' @ accessToken,
                  payload = None\<rparr> # rest))"
proof -
  let ?req = "\<lparr>url = (if isFullUrl cursor then cursor
                         else GRAPH_API_ENDPOINT env @ encodePath cursor),
                  httpMethod = method, authorization = ''Bearer '' @ accessToken,
                  payload = None\<rparr>"
  let ?loop = "paginationLoop env accessToken method maxCount w currentUrl currentParams allItems"
  have step: "?loop = paginationLoop env accessToken method maxCount w1 (JString cursor) [] allItems'"
    apply (subst paginationLoop.simps)
    using continues nonempty
    apply (auto simp: page cursor items getProperty_def truthyOpt_def Let_def
        split: option.splits json.splits)
    done
  have call: "callGraphAPI_url env w1 accessToken method (JString cursor) [] = (x, w2, qp2)"
    using nextCall by (simp add: callGraphAPI_url_def)
  from first_sends [OF nt stringifies_None nextCall]
  obtain rest where sent: "requests w2 = requests w1 @ ?req # rest"
    by (auto simp: cursor_request)
  have B1: "?loop = Some (Inl error, w2)" if "x = Inl error" for error
    unfolding step
    by (subst paginationLoop.simps) (simp add: call that)
  have B2: "\<exists>result. ?loop = Some (Inr result, w2)"
    if "x = Inr (JObject props2)" "\<not> truthyOpt (map_of props2 ''@odata.nextLink'')" for props2
    unfolding step
    by (subst paginationLoop.simps) (simp add: call that getProperty_def Let_def)
  have C: "\<exists>rest. requests (snd y) = requests w1 @ ?req # rest" if "?loop = Some y" for y
  proof -
    from that step have "paginationLoop env accessToken method maxCount w1 (JString cursor) []
        allItems' = Some y"
      by simp
    from loop_after_call [OF this call] sent show ?thesis
      by auto
  qed
  from sent B1 B2 C show ?thesis
    by blast
qed

theorem cursor_followed_witness:
  "\<not> testMode twoPagesEnv ''token''
   \<and> callGraphAPI_url twoPagesEnv world0 ''token'' ''GET'' (JString ''me/messages'')
       [(''$top'', ''2'')] =
     (Inr (JObject [(''value'', JArray [JString ''a'', JString ''b'']),
                    (''@odata.nextLink'',
                     JString ''https://graph.microsoft.com/v1.0/me/messages?$skip=2'')]),
      \<lparr>requests =
         [\<lparr>url = ''https://graph.microsoft.com/v1.0/me/messages?%24top=2'',
            httpMethod = ''GET'', authorization = ''Bearer token'', payload = None\<rparr>],
       tokenCalls = 0, storagesCreated = 0\<rparr>,
      [(''$top'', ''2'')])
   \<and> callGraphAPI twoPagesEnv
        \<lparr>requests =
           [\<lparr>url = ''https://graph.microsoft.com/v1.0/me/messages?%24top=2'',
              httpMethod = ''GET'', authorization = ''Bearer token'', payload = None\<rparr>],
         tokenCalls = 0, storagesCreated = 0\<rparr>
        ''token'' ''GET'' ''https://graph.microsoft.com/v1.0/me/messages?$skip=2'' None [] False =
     (Inr (JObject [(''value'', JArray [JString ''e''])]),
      \<lparr>requests =
         [\<lparr>url = ''https://graph.microsoft.com/v1.0/me/messages?%24top=2'',
            httpMethod = ''GET'', authorization = ''Bearer token'', payload = None\<rparr>,
          \<lparr>url = ''https://graph.microsoft.com/v1.0/me/messages?$skip=2'',
            httpMethod = ''GET'', authorization = ''Bearer token'', payload = None\<rparr>],
       tokenCalls = 0, storagesCreated = 0\<rparr>,
      [])
   \<and> (\<exists>result. paginationLoop twoPagesEnv ''token'' ''GET'' 0 world0 (JString ''me/messages'')
         [(''$top'', ''2'')] [] =
       Some (Inr result,
             \<lparr>requests =
                [\<lparr>url = ''https://graph.microsoft.com/v1.0/me/messages?%24top=2'',
                   httpMethod = ''GET'', authorization = ''Bearer token'', payload = None\<rparr>,
                 \<lparr>url = ''https://graph.microsoft.com/v1.0/me/messages?$skip=2'',
                   httpMethod = ''GET'', authorization = ''Bearer token'', payload = None\<rparr>],
              tokenCalls = 0, storagesCreated = 0\<rparr>))"
proof -
  let ?w1 = "\<lparr>requests =
         [\<lparr>url = ''https://graph.microsoft.com/v1.0/me/messages?%24top=2'',
            httpMethod = ''GET'', authorization = ''Bearer token'', payload = None\<rparr>],
       tokenCalls = 0, storagesCreated = 0\<rparr>"
  let ?w2 = "\<lparr>requests =
         [\<lparr>url = ''https://graph.microsoft.com/v1.0/me/messages?%24top=2'',
            httpMethod = ''GET'', authorization = ''Bearer token'', payload = None\<rparr>,
          \<lparr>url = ''https://graph.microsoft.com/v1.0/me/messages?$skip=2'',
            httpMethod = ''GET'', authorization = ''Bearer token'', payload = None\<rparr>],
       tokenCalls = 0, storagesCreated = 0\<rparr>"
  let ?props = "[(''value'', JArray [JString ''a'', JString ''b'']),
                 (''@odata.nextLink'',
                  JString ''https://graph.microsoft.com/v1.0/me/messages?$skip=2'')]"
  let ?props2 = "[(''value'', JArray [JString ''e''])]"
  have nt: "\<not> testMode twoPagesEnv ''token''"
    by (simp add: twoPagesEnv_def gateway_defs)
  have page: "callGraphAPI_url twoPagesEnv world0 ''token'' ''GET'' (JString ''me/messages'')
       [(''$top'', ''2'')] = (Inr (JObject ?props), ?w1, [(''$top'', ''2'')])"
    by (simp add: callGraphAPI_url_def callGraphAPI.simps twoPagesEnv_def page_defs gateway_defs
          url_defs)
  have cursor: "map_of ?props ''@odata.nextLink'' =
      Some (JString ''https://graph.microsoft.com/v1.0/me/messages?$skip=2'')"
    by simp
  have nonempty: "''https://graph.microsoft.com/v1.0/me/messages?$skip=2'' \<noteq> []"
    by simp
  have items: "[JString ''a'', JString ''b''] =
      (case map_of ?props ''value'' of Some (JArray items) \<Rightarrow> [] @ items | _ \<Rightarrow> [])"
    by simp
  have continues: "\<not> (0 < (0::int) \<and> 0 \<le> int (length [JString ''a'', JString ''b'']))"
    by simp
  have nextCall: "callGraphAPI twoPagesEnv ?w1 ''token'' ''GET''
      ''https://graph.microsoft.com/v1.0/me/messages?$skip=2'' None [] False =
      (Inr (JObject ?props2), ?w2, [])"
    by (simp add: callGraphAPI.simps twoPagesEnv_def page_defs gateway_defs url_defs)
  have last: "\<not> truthyOpt (map_of ?props2 ''@odata.nextLink'')"
    by (simp add: truthyOpt_def)
  from cursor_followed [OF nt page cursor nonempty items continues nextCall] last
  have "\<exists>result. paginationLoop twoPagesEnv ''token'' ''GET'' 0 world0 (JString ''me/messages'')
         [(''$top'', ''2'')] [] = Some (Inr result, ?w2)"
    by blast
  with nt page nextCall show ?thesis
    by blast
qed

section \<open>Pagination collects the pages in order\<close>

lemma loop_pages:
  assumes nt: "\<not> testMode env t"
  shows "chained pages \<Longrightarrow> servesPages env (length (requests w)) pages \<Longrightarrow>
     (maxCount > 0 \<longrightarrow> int (length allItems + length (allItemsOf (butlast pages))) < maxCount) \<Longrightarrow>
     ((maxCount > 0 \<and> maxCount \<le> int (length allItems + length (allItemsOf pages)))
        \<or> \<not> hasCursor (last pages)) \<Longrightarrow>
     paginationLoop env t m maxCount w (JString p) qs allItems =
       Some (Inr (finalResult maxCount (allItems @ allItemsOf pages)),
             w\<lparr>requests := requests w @ pageRequests env t m p qs pages\<rparr>)"
proof (induction pages arbitrary: w p qs allItems)
  case Nil
  then show ?case by simp
next
  case (Cons pg pgs)
  from Cons.prems(2) have pg: "isPage env (network env (length (requests w))) pg"
    and rest: "servesPages env (Suc (length (requests w))) pgs"
    by simp_all
  from fetch_page [OF nt pg, of m p qs] obtain props where
    call: "callGraphAPI_url env w t m (JString p) qs =
            (Inr (JObject props), w\<lparr>requests := requests w @ [firstRequest env t m p None qs]\<rparr>,
             snd (buildFinalUrl (GRAPH_API_ENDPOINT env) p qs))"
    and v: "map_of props ''value'' = Some (JArray (fst pg))"
    and n: "map_of props ''@odata.nextLink'' = map_option JString (snd pg)"
    by blast
  let ?w1 = "w\<lparr>requests := requests w @ [firstRequest env t m p None qs]\<rparr>"
  show ?case
  proof (cases pgs)
    case Nil
    with Cons.prems(4) have stop:
      "(maxCount > 0 \<and> maxCount \<le> int (length (allItems @ fst pg))) \<or> \<not> hasCursor pg"
      by (simp add: allItemsOf_def)
    show ?thesis
      apply (subst paginationLoop.simps)
      using stop
      apply (auto simp: call v n Nil getProperty_def truthyOpt_def hasCursor_def allItemsOf_def Let_def
          pageRequests_def split: option.splits)
      done
  next
    case (Cons pg2 pgs2)
    with Cons.prems(1) have hc: "hasCursor pg" and ch: "chained pgs"
      by simp_all
    from hc obtain c where c: "snd pg = Some c" "c \<noteq> []"
      by (auto simp: hasCursor_def split: option.splits)
    from Cons.prems(3) Cons have go: "\<not> (maxCount > 0 \<and> maxCount \<le> int (length (allItems @ fst pg)))"
      by (auto simp: allItemsOf_def)
    have step: "paginationLoop env t m maxCount w (JString p) qs allItems =
        paginationLoop env t m maxCount ?w1 (JString c) [] (allItems @ fst pg)"
      apply (subst paginationLoop.simps)
      using go
      apply (auto simp: call v n c getProperty_def truthyOpt_def Let_def)
      done
    have "paginationLoop env t m maxCount ?w1 (JString c) [] (allItems @ fst pg) =
       Some (Inr (finalResult maxCount ((allItems @ fst pg) @ allItemsOf pgs)),
             ?w1\<lparr>requests := requests ?w1 @ pageRequests env t m c [] pgs\<rparr>)"
      apply (rule Cons.IH [OF ch])
      using rest Cons.prems(3,4) Cons
      apply (auto simp: allItemsOf_def)
      done
    then show ?thesis
      using step Cons c by (simp add: allItemsOf_def pageRequests_def)
  qed
qed

lemma chained_nonempty: "chained pages \<Longrightarrow> pages \<noteq> []"
  by (cases pages) auto

lemma allItemsOf_butlast_le:
  "length (allItemsOf (butlast pages)) \<le> length (allItemsOf pages)"
  by (cases pages rule: rev_cases) (auto simp: allItemsOf_def)

text \<open>
  Claim C5. Outside test mode, let the answers to the requests serve the pages
  \<open>pages\<close>, each page but the last carrying a cursor. With \<open>maxCount = 0\<close> (or
  less) and no cursor on the last page, \<open>callGraphAPIPaginated\<close> returns the items
  of all pages, concatenated in order. With \<open>maxCount = n > 0\<close>, when the pages
  before the last hold fewer than \<open>n\<close> items and all of them at least \<open>n\<close>, it
  returns exactly the first \<open>n\<close> items (of these pages, and so of any longer chain
  \<open>pages @ further\<close>), and the cursor of the last page, if any, is not followed:
  the requests are one per page of \<open>pages\<close>. With \<open>n > 0\<close> and a chain that ends
  with fewer than \<open>n\<close> items, it returns them all. In each case the call returns:
  the run is not \<open>None\<close>.
\<close>

theorem pagination_exact:
  assumes nt: "\<not> testMode env accessToken"
    and ch: "chained pages"
    and sv: "servesPages env (length (requests w)) pages"
  shows "(maxCount \<le> 0 \<and> \<not> hasCursor (last pages) \<longrightarrow>
            callGraphAPIPaginated env w accessToken ''GET'' path queryParams maxCount =
              Some (Inr (JObject [(''value'', JArray (allItemsOf pages)),
                                  (''@odata.count'', JNumber (of_nat (length (allItemsOf pages))))]),
                    w\<lparr>requests := requests w
                         @ pageRequests env accessToken ''GET'' path queryParams pages\<rparr>))
     \<and> (0 < maxCount \<and> int (length (allItemsOf (butlast pages))) < maxCount
          \<and> maxCount \<le> int (length (allItemsOf pages)) \<longrightarrow>
            callGraphAPIPaginated env w accessToken ''GET'' path queryParams maxCount =
              Some (Inr (JObject [(''value'', JArray (take (nat maxCount) (allItemsOf (pages @ further)))),
                                  (''@odata.count'', JNumber (of_int maxCount))]),
                    w\<lparr>requests := requests w
                         @ pageRequests env accessToken ''GET'' path queryParams pages\<rparr>))
     \<and> (0 < maxCount \<and> int (length (allItemsOf pages)) < maxCount \<and> \<not> hasCursor (last pages) \<longrightarrow>
            callGraphAPIPaginated env w accessToken ''GET'' path queryParams maxCount =
              Some (Inr (JObject [(''value'', JArray (allItemsOf pages)),
                                  (''@odata.count'', JNumber (of_nat (length (allItemsOf pages))))]),
                    w\<lparr>requests := requests w
                         @ pageRequests env accessToken ''GET'' path queryParams pages\<rparr>))"
proof -
  note loop = loop_pages [OF nt ch, of w maxCount "[]" "''GET''" path queryParams, OF sv]
  have A: "callGraphAPIPaginated env w accessToken ''GET'' path queryParams maxCount =
              Some (Inr (JObject [(''value'', JArray (allItemsOf pages)),
                                  (''@odata.count'', JNumber (of_nat (length (allItemsOf pages))))]),
                    w\<lparr>requests := requests w
                         @ pageRequests env accessToken ''GET'' path queryParams pages\<rparr>)"
    if "maxCount \<le> 0" "\<not> hasCursor (last pages)"
    using loop that by (simp add: callGraphAPIPaginated_def finalResult_def Let_def)
  have B: "callGraphAPIPaginated env w accessToken ''GET'' path queryParams maxCount =
              Some (Inr (JObject [(''value'', JArray (take (nat maxCount) (allItemsOf (pages @ further)))),
                                  (''@odata.count'', JNumber (of_int maxCount))]),
                    w\<lparr>requests := requests w
                         @ pageRequests env accessToken ''GET'' path queryParams pages\<rparr>)"
    if "0 < maxCount" "int (length (allItemsOf (butlast pages))) < maxCount"
      "maxCount \<le> int (length (allItemsOf pages))"
  proof -
    have "min (length (allItemsOf pages)) (nat maxCount) = nat maxCount"
      using that by simp
    moreover have "take (nat maxCount) (allItemsOf (pages @ further)) = take (nat maxCount) (allItemsOf pages)"
      using that by (simp add: allItemsOf_def)
    ultimately show ?thesis
      using loop that by (simp add: callGraphAPIPaginated_def finalResult_def Let_def)
  qed
  have C: "callGraphAPIPaginated env w accessToken ''GET'' path queryParams maxCount =
              Some (Inr (JObject [(''value'', JArray (allItemsOf pages)),
                                  (''@odata.count'', JNumber (of_nat (length (allItemsOf pages))))]),
                    w\<lparr>requests := requests w
                         @ pageRequests env accessToken ''GET'' path queryParams pages\<rparr>)"
    if "0 < maxCount" "int (length (allItemsOf pages)) < maxCount" "\<not> hasCursor (last pages)"
  proof -
    have "int (length (allItemsOf (butlast pages))) < maxCount"
      using allItemsOf_butlast_le [of pages] that(2) by linarith
    then show ?thesis
      using loop that by (simp add: callGraphAPIPaginated_def finalResult_def Let_def)
  qed
  from A B C show ?thesis by blast
qed

theorem pagination_exact_witness:
  "\<not> testMode threePagesEnv ''token'' \<and> chained threePages
   \<and> servesPages threePagesEnv (length (requests world0)) threePages
   \<and> \<not> hasCursor (last threePages)
   \<and> callGraphAPIPaginated threePagesEnv world0 ''token'' ''GET'' ''me/messages''
        [(''$top'', ''2'')] 0 =
       Some (Inr (JObject [(''value'', JArray [JString ''a'', JString ''b'', JString ''c'',
                                               JString ''d'', JString ''e'']),
                           (''@odata.count'', JNumber 5)]),
             \<lparr>requests =
                [\<lparr>url = ''https://graph.microsoft.com/v1.0/me/messages?%24top=2'',
                   httpMethod = ''GET'', authorization = ''Bearer token'', payload = None\<rparr>,
                 \<lparr>url = ''https://graph.microsoft.com/v1.0/me/messages?$skip=2'',
                   httpMethod = ''GET'', authorization = ''Bearer token'', payload = None\<rparr>,
                 \<lparr>url = ''https://graph.microsoft.com/v1.0/me/messages?$skip=4'',
                   httpMethod = ''GET'', authorization = ''Bearer token'', payload = None\<rparr>],
              tokenCalls = 0, storagesCreated = 0\<rparr>)
   \<and> chained (take 2 threePages)
   \<and> servesPages threePagesEnv (length (requests world0)) (take 2 threePages)
   \<and> int (length (allItemsOf (butlast (take 2 threePages)))) < 3
   \<and> 3 \<le> int (length (allItemsOf (take 2 threePages)))
   \<and> callGraphAPIPaginated threePagesEnv world0 ''token'' ''GET'' ''me/messages''
        [(''$top'', ''2'')] 3 =
       Some (Inr (JObject [(''value'', JArray [JString ''a'', JString ''b'', JString ''c'']),
                           (''@odata.count'', JNumber 3)]),
             \<lparr>requests =
                [\<lparr>url = ''https://graph.microsoft.com/v1.0/me/messages?%24top=2'',
                   httpMethod = ''GET'', authorization = ''Bearer token'', payload = None\<rparr>,
                 \<lparr>url = ''https://graph.microsoft.com/v1.0/me/messages?$skip=2'',
                   httpMethod = ''GET'', authorization = ''Bearer token'', payload = None\<rparr>],
              tokenCalls = 0, storagesCreated = 0\<rparr>)"
proof -
  have nt: "\<not> testMode threePagesEnv ''token''"
    by (simp add: page_defs gateway_defs)
  have all: "chained threePages" "servesPages threePagesEnv (length (requests world0)) threePages"
    "\<not> hasCursor (last threePages)"
    by (simp_all add: page_defs gateway_defs)
  have two: "chained (take 2 threePages)"
    "servesPages threePagesEnv (length (requests world0)) (take 2 threePages)"
    "int (length (allItemsOf (butlast (take 2 threePages)))) < 3"
    "3 \<le> int (length (allItemsOf (take 2 threePages)))"
    by (simp_all add: page_defs gateway_defs)
  from pagination_exact [OF nt all(1,2), where maxCount = 0 and path = "''me/messages''"
      and queryParams = "[(''$top'', ''2'')]"] all(3)
  have unbounded: "callGraphAPIPaginated threePagesEnv world0 ''token'' ''GET'' ''me/messages''
        [(''$top'', ''2'')] 0 =
       Some (Inr (JObject [(''value'', JArray (allItemsOf threePages)),
                           (''@odata.count'', JNumber (of_nat (length (allItemsOf threePages))))]),
             world0\<lparr>requests := requests world0
                 @ pageRequests threePagesEnv ''token'' ''GET'' ''me/messages'' [(''$top'', ''2'')]
                     threePages\<rparr>)"
    by simp
  from pagination_exact [OF nt two(1,2), where maxCount = 3 and further = "[threePages ! 2]"
      and path = "''me/messages''" and queryParams = "[(''$top'', ''2'')]"] two(3,4)
  have bounded: "callGraphAPIPaginated threePagesEnv world0 ''token'' ''GET'' ''me/messages''
        [(''$top'', ''2'')] 3 =
       Some (Inr (JObject [(''value'', JArray (take 3 (allItemsOf (take 2 threePages @ [threePages ! 2])))),
                           (''@odata.count'', JNumber 3)]),
             world0\<lparr>requests := requests world0
                 @ pageRequests threePagesEnv ''token'' ''GET'' ''me/messages'' [(''$top'', ''2'')]
                     (take 2 threePages)\<rparr>)"
    by simp
  show ?thesis
    unfolding unbounded bounded using nt all two
    by (simp add: page_defs gateway_defs url_defs)
qed

end
